theory Spec2Isabelle
  imports Main "HOL-Library.AList"
begin

section \<open>Python values and the built-in constructors used as port types\<close>

text \<open>
  The node model of \<^verbatim>\<open>floppy/node.py\<close> is dynamically typed: a port holds any Python
  object, and its declared type \<^verbatim>\<open>varType\<close> is a class that is \<^emph>\<open>called\<close> on the stored
  object when the port is read.  The values are modelled by the datatype \<open>pyval\<close>.
  A string is a list of characters; a character stands for the code point of the same
  number (0 to 255).  A float is kept as sign, mantissa and binary exponent, or as an
  infinity or a NaN; the conversions that need IEEE rounding or Python's \<^verbatim>\<open>repr\<close>
  are not computed here but taken from the record \<open>runtime\<close> below.  \<open>PObj k\<close> is an
  instance of a plain user class (no special methods), identified by \<open>k\<close>.
\<close>

datatype pydouble = Double bool nat int | Inf bool | NaN

datatype pyval =
    PNone
  | PBool bool
  | PInt int
  | PFloat pydouble
  | PStr string
  | PList "pyval list"
  | PObj nat

datatype error =
    InputNotAvailable
  | InputAlreadySet
  | ValueError
  | TypeError
  | KeyError
  | IndexError
  | AttributeError
  | OverflowError
  | NoSuchNode

text \<open>
  The classes that occur as \<^verbatim>\<open>varType\<close>: \<^verbatim>\<open>object\<close>, \<^verbatim>\<open>bool\<close>, \<^verbatim>\<open>int\<close>, \<^verbatim>\<open>float\<close>,
  \<^verbatim>\<open>str\<close>, and the subclasses of \<^verbatim>\<open>floppy.types.Type\<close> (instances of \<^verbatim>\<open>MetaType\<close>),
  given by their class name.
\<close>

datatype vartype = TObject | TBool | TInt | TFloat | TStr | TType string

fun type_name :: "vartype \<Rightarrow> string" where
  "type_name TObject = ''object''"
| "type_name TBool = ''bool''"
| "type_name TInt = ''int''"
| "type_name TFloat = ''float''"
| "type_name TStr = ''str''"
| "type_name (TType n) = n"

text \<open>
  What this development takes as given.  \<open>float_of_str\<close> and \<open>float_of_int\<close> are
  \<^verbatim>\<open>float(s)\<close> on a string that is not blank and \<^verbatim>\<open>float(i)\<close> (\<open>None\<close>: the
  conversion raises); \<open>str_of\<close> is \<^verbatim>\<open>str(x)\<close> on floats, lists and user objects.
  \<open>checkType\<close> is the class method \<^verbatim>\<open>checkType\<close> of a \<^verbatim>\<open>Type\<close> subclass and
  \<open>newType\<close> the call of such a class on one argument: node.py imports both from
  \<^verbatim>\<open>floppy.FloppyTypes\<close>, which is not among the source files.
\<close>

record runtime =
  float_of_str :: "string \<Rightarrow> pydouble option"
  float_of_int :: "int \<Rightarrow> pydouble option"
  str_of :: "pyval \<Rightarrow> string"
  checkType :: "string \<Rightarrow> pyval \<Rightarrow> error + pyval"
  newType :: "string \<Rightarrow> pyval \<Rightarrow> error + pyval"

subsection \<open>Strings\<close>

definition upper_char :: "char \<Rightarrow> char" where
  "upper_char c =
     (case map_of (zip ''abcdefghijklmnopqrstuvwxyz'' ''ABCDEFGHIJKLMNOPQRSTUVWXYZ'') c of
        Some u \<Rightarrow> u | None \<Rightarrow> c)"


text \<open>
  \<^verbatim>\<open>str.upper\<close> and \<^verbatim>\<open>str.lower\<close> on ASCII text.  Python also maps letters beyond
  ASCII; none of them is mapped to an ASCII letter of \<^verbatim>\<open>TRUE\<close>, so the comparison
  \<^verbatim>\<open>value.upper() == 'TRUE'\<close> of \<^verbatim>\<open>setDefault\<close> is the same under both.
\<close>

definition upper :: "string \<Rightarrow> string" where
  "upper s = map upper_char s"



text \<open>The characters \<^verbatim>\<open>str.isspace\<close> accepts among the code points below 256.\<close>

definition is_space :: "char \<Rightarrow> bool" where
  "is_space c = (of_char c \<in> set [9, 10, 11, 12, 13, 28, 29, 30, 31, 32, 133, 160 :: nat])"

definition strip :: "string \<Rightarrow> string" where
  "strip s = rev (dropWhile is_space (rev (dropWhile is_space s)))"

definition digit_val :: "char \<Rightarrow> nat option" where
  "digit_val c = map_of (zip ''0123456789'' [0, 1, 2, 3, 4, 5, 6, 7, 8, 9]) c"

text \<open>
  The digits of a decimal integer literal as \<^verbatim>\<open>int(s)\<close> reads it: single underscores
  may stand between digits.  \<open>acc\<close> is the value read so far.
\<close>

fun more_digits :: "nat \<Rightarrow> string \<Rightarrow> nat option" where
  "more_digits acc [] = Some acc"
| "more_digits acc [c] =
     (case digit_val c of Some d \<Rightarrow> Some (acc * 10 + d) | None \<Rightarrow> None)"
| "more_digits acc (c # c' # cs) =
     (case digit_val c of
        Some d \<Rightarrow> more_digits (acc * 10 + d) (c' # cs)
      | None \<Rightarrow>
          (if c = CHR ''_'' then
             (case digit_val c' of
                Some d \<Rightarrow> more_digits (acc * 10 + d) cs
              | None \<Rightarrow> None)
           else None))"

definition unsigned_literal :: "string \<Rightarrow> nat option" where
  "unsigned_literal s =
     (case s of
        [] \<Rightarrow> None
      | c # cs \<Rightarrow> (case digit_val c of Some d \<Rightarrow> more_digits d cs | None \<Rightarrow> None))"

definition parse_int :: "string \<Rightarrow> int option" where
  "parse_int s =
     (case strip s of
        [] \<Rightarrow> None
      | c # cs \<Rightarrow>
          (if c = CHR ''-'' then map_option (\<lambda>n. - int n) (unsigned_literal cs)
           else if c = CHR ''+'' then map_option int (unsigned_literal cs)
           else map_option int (unsigned_literal (c # cs))))"

fun nat_digits :: "nat \<Rightarrow> string" where
  "nat_digits n =
     (if n < 10 then [''0123456789'' ! n]
      else nat_digits (n div 10) @ [''0123456789'' ! (n mod 10)])"

declare nat_digits.simps [simp del]

definition int_str :: "int \<Rightarrow> string" where
  "int_str i = (if i < 0 then CHR ''-'' # nat_digits (nat (- i)) else nat_digits (nat i))"

subsection \<open>The constructors\<close>

text \<open>\<^verbatim>\<open>bool(x)\<close>: the truth value of an object.\<close>

fun truthy :: "pyval \<Rightarrow> bool" where
  "truthy PNone = False"
| "truthy (PBool b) = b"
| "truthy (PInt i) = (i \<noteq> 0)"
| "truthy (PFloat (Double s m e)) = (m \<noteq> 0)"
| "truthy (PFloat (Inf s)) = True"
| "truthy (PFloat NaN) = True"
| "truthy (PStr s) = (s \<noteq> [])"
| "truthy (PList xs) = (xs \<noteq> [])"
| "truthy (PObj k) = True"

text \<open>\<^verbatim>\<open>int(x)\<close>: a float is truncated towards zero.\<close>

fun py_int :: "pyval \<Rightarrow> error + pyval" where
  "py_int PNone = Inl TypeError"
| "py_int (PBool b) = Inr (PInt (if b then 1 else 0))"
| "py_int (PInt i) = Inr (PInt i)"
| "py_int (PFloat (Double s m e)) =
     (let a = (if 0 \<le> e then int m * 2 ^ nat e else int m div 2 ^ nat (- e))
      in Inr (PInt (if s then - a else a)))"
| "py_int (PFloat (Inf s)) = Inl OverflowError"
| "py_int (PFloat NaN) = Inl ValueError"
| "py_int (PStr s) = (case parse_int s of Some i \<Rightarrow> Inr (PInt i) | None \<Rightarrow> Inl ValueError)"
| "py_int (PList xs) = Inl TypeError"
| "py_int (PObj k) = Inl TypeError"

text \<open>\<^verbatim>\<open>float(x)\<close>: a blank string is no float literal.\<close>

fun py_float :: "runtime \<Rightarrow> pyval \<Rightarrow> error + pyval" where
  "py_float rt PNone = Inl TypeError"
| "py_float rt (PBool b) = Inr (PFloat (Double False (if b then 1 else 0) 0))"
| "py_float rt (PInt i) =
     (case float_of_int rt i of Some d \<Rightarrow> Inr (PFloat d) | None \<Rightarrow> Inl OverflowError)"
| "py_float rt (PFloat d) = Inr (PFloat d)"
| "py_float rt (PStr s) =
     (if strip s = [] then Inl ValueError
      else (case float_of_str rt s of Some d \<Rightarrow> Inr (PFloat d) | None \<Rightarrow> Inl ValueError))"
| "py_float rt (PList xs) = Inl TypeError"
| "py_float rt (PObj k) = Inl TypeError"

text \<open>\<^verbatim>\<open>str(x)\<close>.\<close>

fun py_str :: "runtime \<Rightarrow> pyval \<Rightarrow> string" where
  "py_str rt PNone = ''None''"
| "py_str rt (PBool b) = (if b then ''True'' else ''False'')"
| "py_str rt (PInt i) = int_str i"
| "py_str rt (PStr s) = s"
| "py_str rt v = str_of rt v"

text \<open>
  \<^verbatim>\<open>varType(x)\<close>, the call of the port's class on an object.  \<^verbatim>\<open>object(x)\<close> takes
  no argument; node.py never calls it (it tests \<^verbatim>\<open>varType == object\<close> first).
\<close>

fun construct :: "runtime \<Rightarrow> vartype \<Rightarrow> pyval \<Rightarrow> error + pyval" where
  "construct rt TObject v = Inl TypeError"
| "construct rt TBool v = Inr (PBool (truthy v))"
| "construct rt TInt v = py_int v"
| "construct rt TFloat v = py_float rt v"
| "construct rt TStr v = Inr (PStr (py_str rt v))"
| "construct rt (TType n) v = newType rt n v"

text \<open>A list comprehension \<^verbatim>\<open>[f(i) for i in xs]\<close>: the first failure ends it.\<close>

fun map_result :: "('a \<Rightarrow> error + 'b) \<Rightarrow> 'a list \<Rightarrow> error + 'b list" where
  "map_result f [] = Inr []"
| "map_result f (x # xs) =
     (case f x of
        Inl e \<Rightarrow> Inl e
      | Inr y \<Rightarrow> (case map_result f xs of Inl e \<Rightarrow> Inl e | Inr ys \<Rightarrow> Inr (y # ys)))"


section \<open>Ports: the classes Info, InputInfo and OutputInfo\<close>

text \<open>
  The fields of \<^verbatim>\<open>Info\<close>.  \<open>default_p\<close>, \<open>value_p\<close> and \<open>list_p\<close> are the attributes
  \<^verbatim>\<open>default\<close>, \<^verbatim>\<open>value\<close> and \<^verbatim>\<open>list\<close>.  \<open>owner\<close> is \<open>None\<close> for
  \<^verbatim>\<open>False\<close> (no owner yet) and the identifier of the owning node otherwise.
\<close>

record info =
  name :: string
  connected :: bool
  varType :: vartype
  hints :: "string list"
  default_p :: pyval
  valueSet :: bool
  value_p :: pyval
  select :: pyval
  owner :: "nat option"
  list_p :: bool

text \<open>\<^verbatim>\<open>Info.__init__\<close>; \<^verbatim>\<open>not hints\<close> holds of \<^verbatim>\<open>None\<close> and of the empty list.\<close>

definition Info_init ::
  "string \<Rightarrow> vartype \<Rightarrow> string list option \<Rightarrow> pyval \<Rightarrow> pyval \<Rightarrow> nat option \<Rightarrow> bool \<Rightarrow> info"
where
  "Info_init n vt hs d sel own l =
     \<lparr> name = n,
       connected = False,
       varType = vt,
       hints = (case hs of
                  None \<Rightarrow> [type_name vt]
                | Some h \<Rightarrow> (if h = [] then [type_name vt] else type_name vt # h)),
       default_p = d,
       valueSet = False,
       value_p = PNone,
       select = sel,
       owner = own,
       list_p = l \<rparr>"

definition setOwner :: "info \<Rightarrow> nat \<Rightarrow> info" where
  "setOwner p own = p\<lparr>owner := Some own\<rparr>"

text \<open>
  \<^verbatim>\<open>Info.setDefault\<close>.  Only \<^verbatim>\<open>ValueError\<close> is caught around the constructor call; any
  other exception leaves the method with the port as it was.  For a \<^verbatim>\<open>bool\<close> port,
  \<^verbatim>\<open>value.upper()\<close> exists for a string only, and the bare \<^verbatim>\<open>except\<close> stores the
  object itself otherwise.
\<close>

definition setDefault_bool :: "info \<Rightarrow> pyval \<Rightarrow> info" where
  "setDefault_bool p v =
     (if varType p = TBool then
        (case v of
           PStr s \<Rightarrow>
             (if upper s = ''TRUE'' then p\<lparr>default_p := PBool True\<rparr>
              else p\<lparr>default_p := PBool False\<rparr>)
         | _ \<Rightarrow> p\<lparr>default_p := v\<rparr>)
      else p)"

definition is_Type :: "vartype \<Rightarrow> bool" where
  "is_Type vt = (case vt of TType n \<Rightarrow> True | _ \<Rightarrow> False)"

definition setDefault :: "runtime \<Rightarrow> info \<Rightarrow> pyval \<Rightarrow> error option \<times> info" where
  "setDefault rt p v =
     (if varType p \<noteq> TObject \<and> \<not> is_Type (varType p) then
        (case construct rt (varType p) v of
           Inr d \<Rightarrow> (None, setDefault_bool (p\<lparr>default_p := d\<rparr>) v)
         | Inl e \<Rightarrow>
             (if e = ValueError then (None, setDefault_bool (p\<lparr>default_p := PStr []\<rparr>) v)
              else (Some e, p)))
      else (None, p\<lparr>default_p := v\<rparr>))"

text \<open>\<^verbatim>\<open>Info.reset\<close>.\<close>

definition reset :: "info \<Rightarrow> info" where
  "reset p = p\<lparr>default_p := PNone, valueSet := False, value_p := PNone\<rparr>"

text \<open>
  A comprehension over the stored object, \<^verbatim>\<open>[f(i) for i in self.value]\<close>: a list gives
  its elements, a string its characters, and the other objects are not iterable.
\<close>

fun for_each_in :: "(pyval \<Rightarrow> error + pyval) \<Rightarrow> pyval \<Rightarrow> error + pyval" where
  "for_each_in f (PList xs) = map_sum id PList (map_result f xs)"
| "for_each_in f (PStr s) = map_sum id PList (map_result f (map (\<lambda>c. PStr [c]) s))"
| "for_each_in f v = Inl TypeError"

text \<open>
  \<^verbatim>\<open>InputInfo.__call__\<close>, the read of an input port.  \<^verbatim>\<open>isinstance(varType, MetaType)\<close>
  holds of the \<^verbatim>\<open>Type\<close> subclasses.
\<close>

definition InputInfo_call :: "runtime \<Rightarrow> info \<Rightarrow> bool \<Rightarrow> error + pyval" where
  "InputInfo_call rt p noException =
     (if valueSet p then
        (if varType p \<noteq> TObject then
           (case varType p of
              TType n \<Rightarrow>
                (if list_p p then for_each_in (checkType rt n) (value_p p)
                 else checkType rt n (value_p p))
            | vt \<Rightarrow>
                (if list_p p then for_each_in (construct rt vt) (value_p p)
                 else construct rt vt (value_p p)))
         else Inr (value_p p))
      else if default_p p \<noteq> PNone \<and> \<not> connected p then
        (if varType p \<noteq> TObject then construct rt (varType p) (default_p p)
         else Inr (default_p p))
      else
        (if noException then Inr PNone else Inl InputNotAvailable))"

text \<open>
  \<^verbatim>\<open>InputInfo.set\<close>.  The result pairs the exception raised, if any, with the port
  as the call leaves it.
\<close>

definition InputInfo_set :: "info \<Rightarrow> pyval \<Rightarrow> bool \<Rightarrow> error option \<times> info" where
  "InputInfo_set p v override =
     (if valueSet p \<and> \<not> override then (Some InputAlreadySet, p)
      else (None, p\<lparr>value_p := v, valueSet := True\<rparr>))"

definition setConnected :: "info \<Rightarrow> bool \<Rightarrow> info" where
  "setConnected p b = p\<lparr>connected := b\<rparr>"

definition isAvailable :: "info \<Rightarrow> bool" where
  "isAvailable p =
     (if valueSet p then True
      else if default_p p \<noteq> PNone \<and> \<not> connected p then True
      else False)"

text \<open>
  \<^verbatim>\<open>OutputInfo.__call__\<close>.  The attempt to tag the object with \<^verbatim>\<open>__FloppyType__\<close>
  changes no field of the port and nothing that node.py reads back from a \<open>pyval\<close>.
\<close>

definition OutputInfo_call :: "info \<Rightarrow> pyval \<Rightarrow> info" where
  "OutputInfo_call p v = p\<lparr>value_p := v, valueSet := True\<rparr>"

section \<open>Node classes: the metaclass MetaNode\<close>

text \<open>
  A port declaration in a class body, as \<^verbatim>\<open>MetaNode.addInput\<close> and \<^verbatim>\<open>addOutput\<close>
  record it.  An optional argument is \<open>None\<close> when the call leaves it out; then the
  keyword default of the signature is stored.
\<close>

record decl =
  d_name :: string
  d_varType :: vartype
  d_hints :: "string list option"
  d_default :: pyval
  d_select :: pyval
  d_list :: bool

definition addInput ::
  "string \<Rightarrow> vartype \<Rightarrow> string list option \<Rightarrow> pyval option \<Rightarrow> pyval option \<Rightarrow> bool option \<Rightarrow> decl"
where
  "addInput n vt hs d sel l =
     \<lparr> d_name = n,
       d_varType = vt,
       d_hints = hs,
       d_default = (case d of None \<Rightarrow> PStr [] | Some v \<Rightarrow> v),
       d_select = (case sel of None \<Rightarrow> PNone | Some v \<Rightarrow> v),
       d_list = (case l of None \<Rightarrow> False | Some b \<Rightarrow> b) \<rparr>"

definition addOutput ::
  "string \<Rightarrow> vartype \<Rightarrow> string list option \<Rightarrow> pyval option \<Rightarrow> pyval option \<Rightarrow> bool option \<Rightarrow> decl"
where
  "addOutput n vt hs d sel l = addInput n vt hs d sel l"

text \<open>
  \<^verbatim>\<open>InputInfo(**data)\<close> and \<^verbatim>\<open>OutputInfo(**data)\<close>: the port of a declaration; the
  owner is left at its keyword default \<^verbatim>\<open>False\<close>.
\<close>

definition port_of_decl :: "decl \<Rightarrow> info" where
  "port_of_decl d =
     Info_init (d_name d) (d_varType d) (d_hints d) (d_default d) (d_select d) None (d_list d)"

text \<open>
  A node class: \<^verbatim>\<open>__inputs__\<close>, \<^verbatim>\<open>__outputs__\<close> (ordered dictionaries, as association
  lists in insertion order) and \<^verbatim>\<open>__tags__\<close>.
\<close>

record node_class =
  c_inputs :: "(string \<times> info) list"
  c_outputs :: "(string \<times> info) list"
  c_tags :: "string list"

definition add_ports :: "(string \<times> info) list \<Rightarrow> decl list \<Rightarrow> (string \<times> info) list" where
  "add_ports ps ds = foldl (\<lambda>acc d. AList.update (d_name d) (port_of_decl d) acc) ps ds"

text \<open>
  \<^verbatim>\<open>MetaNode.__new__\<close>: the ports and tags of the first base class are copied and the
  declarations of the class body are added in order.  The base is \<open>None\<close> for a class
  whose first base has no ports (\<^verbatim>\<open>object\<close>).
\<close>

definition new_class :: "node_class option \<Rightarrow> decl list \<Rightarrow> decl list \<Rightarrow> string list \<Rightarrow> node_class" where
  "new_class base ins outs tgs =
     \<lparr> c_inputs = add_ports (case base of None \<Rightarrow> [] | Some b \<Rightarrow> c_inputs b) ins,
       c_outputs = add_ports (case base of None \<Rightarrow> [] | Some b \<Rightarrow> c_outputs b) outs,
       c_tags = (case base of None \<Rightarrow> [] | Some b \<Rightarrow> c_tags b) @ tgs \<rparr>"






text \<open>The classes of node.py that the control-flow nodes are built from.\<close>

definition Node_class :: node_class where
  "Node_class = new_class None [] [] [''Node'']"

definition ControlNode_class :: node_class where
  "ControlNode_class =
     new_class (Some Node_class)
       [addInput ''Start'' TObject None None None None,
        addInput ''Control'' TObject None None None None]
       [addOutput ''Final'' TObject None None None None]
       []"

definition SwitchNode_class :: node_class where
  "SwitchNode_class =
     new_class (Some ControlNode_class)
       [addInput ''Switch'' TBool None None None None]
       [addOutput ''True'' TObject None None None None,
        addOutput ''False'' TObject None None None None]
       []"

definition Loop_class :: node_class where
  "Loop_class =
     new_class (Some ControlNode_class)
       [addInput ''Iterations'' TInt None None None None]
       [addOutput ''LoopBody'' TObject None None None None]
       []"

definition ForEach_class :: node_class where
  "ForEach_class =
     new_class (Some ControlNode_class)
       [addInput ''Start'' TObject None None None (Some True)]
       [addOutput ''ListElement'' TObject None None None None]
       []"


section \<open>Node instances and the graph\<close>

text \<open>
  A node instance: its own copies of the ports, and the state attributes that the
  control-flow classes add (\<^verbatim>\<open>fresh\<close>, \<^verbatim>\<open>counter\<close>, \<^verbatim>\<open>done\<close>, here \<open>done_f\<close>).
  A class that does not declare one of them never reads it.  The pins hold no state of
  their own and are left out.
\<close>

record node =
  inputs :: "(string \<times> info) list"
  outputs :: "(string \<times> info) list"
  fresh :: bool
  counter :: int
  done_f :: bool

text \<open>
  \<^verbatim>\<open>Node.__init__\<close> followed by the assignments of the subclass constructors
  (\<^verbatim>\<open>fresh = True\<close>, \<^verbatim>\<open>counter = 0\<close>, \<^verbatim>\<open>done = False\<close>).  Every port of the class is
  copied and given its owner; a class without inputs is refused.
\<close>

definition own_ports :: "nat \<Rightarrow> (string \<times> info) list \<Rightarrow> (string \<times> info) list" where
  "own_ports nodeID ps =
     foldl (\<lambda>acc p. AList.update (name p) (setOwner p nodeID) acc) [] (map snd ps)"

definition Node_init :: "node_class \<Rightarrow> nat \<Rightarrow> error + node" where
  "Node_init cls nodeID =
     (if own_ports nodeID (c_inputs cls) = [] then Inl AttributeError
      else Inr \<lparr> inputs = own_ports nodeID (c_inputs cls),
                 outputs = own_ports nodeID (c_outputs cls),
                 fresh = True, counter = 0, done_f = False \<rparr>)"

text \<open>
  Nodes refer to each other, and \<^verbatim>\<open>notify\<close> writes into the ports of other nodes, so
  the nodes of a graph live in a store, from node identifiers to nodes.  A connection
  names its target node by identifier.  The graph object itself (\<^verbatim>\<open>self.graph\<close>) is not
  part of node.py: its two queries used here are taken as functions of the asking node
  and, for \<^verbatim>\<open>getConnectionsOfOutput\<close>, the name of the output port passed.
\<close>

type_synonym store = "nat \<Rightarrow> node option"

record connection =
  outputName :: string
  inputNode :: nat
  inputName :: string

record graph =
  getConnectionsFrom :: "nat \<Rightarrow> connection list"
  getConnectionsOfOutput :: "nat \<Rightarrow> string \<Rightarrow> connection list"

text \<open>
  A statement sequence on a state: the second part runs unless the first raised.  The
  state travels with the exception, since what was assigned before a raise stays.
\<close>

definition and_then :: "error option \<times> 's \<Rightarrow> ('s \<Rightarrow> error option \<times> 's) \<Rightarrow> error option \<times> 's" where
  "and_then r f = (case r of (None, s) \<Rightarrow> f s | (Some e, s) \<Rightarrow> (Some e, s))"

text \<open>A method of the node \<open>nid\<close> run inside the store.  \<open>NoSuchNode\<close> marks an
  identifier the store does not hold; a Python reference always has its object.\<close>

definition on_node :: "nat \<Rightarrow> (node \<Rightarrow> error option \<times> node) \<Rightarrow> store \<Rightarrow> error option \<times> store" where
  "on_node nid f st =
     (case st nid of
        None \<Rightarrow> (Some NoSuchNode, st)
      | Some n \<Rightarrow> (case f n of (r, n') \<Rightarrow> (r, st(nid \<mapsto> n'))))"

text \<open>\<^verbatim>\<open>Node.setInput\<close>: \<^verbatim>\<open>self.inputs[inputName].set(value, override=override)\<close>.\<close>

definition setInput :: "string \<Rightarrow> pyval \<Rightarrow> bool \<Rightarrow> node \<Rightarrow> error option \<times> node" where
  "setInput item v override n =
     (case map_of (inputs n) item of
        None \<Rightarrow> (Some KeyError, n)
      | Some p \<Rightarrow>
          (case InputInfo_set p v override of
             (r, p') \<Rightarrow> (r, n\<lparr>inputs := AList.update item p' (inputs n)\<rparr>)))"

text \<open>\<^verbatim>\<open>self.inputs[item].reset()\<close>.\<close>

definition reset_input :: "string \<Rightarrow> node \<Rightarrow> error option \<times> node" where
  "reset_input item n =
     (case map_of (inputs n) item of
        None \<Rightarrow> (Some KeyError, n)
      | Some p \<Rightarrow> (None, n\<lparr>inputs := AList.update item (reset p) (inputs n)\<rparr>))"

text \<open>
  The loop over connections that every \<^verbatim>\<open>notify\<close> has:
  \<^verbatim>\<open>for con in cons: nextNode.setInput(nextInput, <what to send>, override)\<close>.
  \<open>sel\<close> is what is read from the port \<^verbatim>\<open>self.outputs[outputName]\<close> to be sent.
\<close>

fun push :: "(info \<Rightarrow> pyval) \<Rightarrow> bool \<Rightarrow> nat \<Rightarrow> connection list \<Rightarrow> store \<Rightarrow> error option \<times> store" where
  "push sel override sid [] st = (None, st)"
| "push sel override sid (con # cons) st =
     (case st sid of
        None \<Rightarrow> (Some NoSuchNode, st)
      | Some self \<Rightarrow>
          (case map_of (outputs self) (outputName con) of
             None \<Rightarrow> (Some KeyError, st)
           | Some out \<Rightarrow>
               and_then (on_node (inputNode con) (setInput (inputName con) (sel out) override) st)
                 (push sel override sid cons)))"


definition reset_all :: "node \<Rightarrow> node" where
  "reset_all n = n\<lparr>inputs := map (\<lambda>(k, p). (k, reset p)) (inputs n)\<rparr>"


definition Node_check :: "node \<Rightarrow> error + pyval" where
  "Node_check n = Inr (PBool (list_all isAvailable (map snd (inputs n))))"

definition Node_run :: "runtime \<Rightarrow> node \<Rightarrow> error option \<times> node" where
  "Node_run rt n = (None, n)"

subsection \<open>Attribute access\<close>

text \<open>
  \<^verbatim>\<open>Node.__getattr__\<close> for a name \<^verbatim>\<open>_item\<close>: the value read from the input of that
  name, else the output port of that name, else \<^verbatim>\<open>AttributeError\<close>.  A \<^verbatim>\<open>KeyError\<close>
  from the read itself is caught like the one of the missing key.
\<close>

datatype attr = Value pyval | Port info

definition getattr :: "runtime \<Rightarrow> node \<Rightarrow> string \<Rightarrow> error + attr" where
  "getattr rt n item =
     (let from_outputs =
            (case map_of (outputs n) item of
               Some out \<Rightarrow> Inr (Port out)
             | None \<Rightarrow> Inl AttributeError)
      in case map_of (inputs n) item of
           None \<Rightarrow> from_outputs
         | Some p \<Rightarrow>
             (case InputInfo_call rt p False of
                Inr v \<Rightarrow> Inr (Value v)
              | Inl e \<Rightarrow> (if e = KeyError then from_outputs else Inl e)))"

text \<open>
  \<^verbatim>\<open>self._item\<close> where the method goes on with the object read.  An output port is no
  \<open>pyval\<close>: the classes below read inputs only, and for a node that lacks the input
  the model stops with \<^verbatim>\<open>TypeError\<close> where Python would carry the port object on.
\<close>

definition read_attr :: "runtime \<Rightarrow> node \<Rightarrow> string \<Rightarrow> error + pyval" where
  "read_attr rt n item =
     (case getattr rt n item of
        Inl e \<Rightarrow> Inl e
      | Inr (Value v) \<Rightarrow> Inr v
      | Inr (Port p) \<Rightarrow> Inl TypeError)"

text \<open>
  The call \<^verbatim>\<open>f(v)\<close> of an attribute \<open>f\<close> found under \<^verbatim>\<open>_item\<close>: an output port stores
  \<open>v\<close>; a value read from an input is not callable.
\<close>

definition call_attr :: "attr \<Rightarrow> string \<Rightarrow> pyval \<Rightarrow> node \<Rightarrow> error option \<times> node" where
  "call_attr f item v n =
     (case f of
        Port p \<Rightarrow> (None, n\<lparr>outputs := AList.update item (OutputInfo_call p v) (outputs n)\<rparr>)
      | Value x \<Rightarrow> (Some TypeError, n))"

text \<open>The statement \<^verbatim>\<open>self._out(self._inp)\<close>: the callee is looked up before the argument.\<close>

definition emit :: "runtime \<Rightarrow> string \<Rightarrow> string \<Rightarrow> node \<Rightarrow> error option \<times> node" where
  "emit rt out inp n =
     (case getattr rt n out of
        Inl e \<Rightarrow> (Some e, n)
      | Inr f \<Rightarrow>
          (case read_attr rt n inp of
             Inl e \<Rightarrow> (Some e, n)
           | Inr v \<Rightarrow> call_attr f out v n))"

text \<open>
  The readiness test that the three control-flow classes share while fresh: every
  input but \<^verbatim>\<open>Control\<close> is available.
\<close>

definition fresh_ready :: "node \<Rightarrow> bool" where
  "fresh_ready n =
     list_all (\<lambda>inp. name inp = ''Control'' \<or> isAvailable inp) (map snd (inputs n))"

text \<open>\<^verbatim>\<open>if self.inputs['Control'].isAvailable(): return True\<close>, else the method ends
  and returns \<^verbatim>\<open>None\<close>.\<close>

definition control_ready :: "node \<Rightarrow> error + pyval" where
  "control_ready n =
     (case map_of (inputs n) ''Control'' of
        None \<Rightarrow> Inl KeyError
      | Some p \<Rightarrow> Inr (if isAvailable p then PBool True else PNone))"

text \<open>\<^verbatim>\<open>for inp in self.inputs.values(): if not inp.name == 'Iterations': inp.reset()\<close>.\<close>

definition reset_but_Iterations :: "node \<Rightarrow> node" where
  "reset_but_Iterations n =
     n\<lparr>inputs := map (\<lambda>(k, p). (k, if name p \<noteq> ''Iterations'' then reset p else p)) (inputs n)\<rparr>"

text \<open>The connections of the output port stored under \<open>item\<close>, sent with \<^verbatim>\<open>.value\<close>.\<close>

definition push_output :: "graph \<Rightarrow> string \<Rightarrow> bool \<Rightarrow> nat \<Rightarrow> store \<Rightarrow> error option \<times> store" where
  "push_output g item override sid st =
     (case st sid of
        None \<Rightarrow> (Some NoSuchNode, st)
      | Some self \<Rightarrow>
          (case map_of (outputs self) item of
             None \<Rightarrow> (Some KeyError, st)
           | Some output \<Rightarrow>
               push value_p override sid (getConnectionsOfOutput g sid (name output)) st))"


section \<open>The control-flow nodes\<close>

subsection \<open>SwitchNode\<close>




subsection \<open>Loop\<close>

definition Loop_check :: "node \<Rightarrow> error + pyval" where
  "Loop_check n =
     (if fresh n then Inr (PBool (fresh_ready n))
      else if counter n > 0 then control_ready n
      else Inr PNone)"

text \<open>
  \<^verbatim>\<open>self.counter = self._Iterations\<close>: the port is declared \<^verbatim>\<open>int\<close>, so the read is
  an integer (lemma \<open>int_port_read\<close> below); the last case is there for a node whose
  \<^verbatim>\<open>Iterations\<close> port has another type.
\<close>

definition Loop_run :: "runtime \<Rightarrow> node \<Rightarrow> error option \<times> node" where
  "Loop_run rt n =
     (if fresh n then
        (case read_attr rt n ''Iterations'' of
           Inl e \<Rightarrow> (Some e, n)
         | Inr (PInt i) \<Rightarrow>
             and_then (emit rt ''LoopBody'' ''Start'' (n\<lparr>counter := i\<rparr>))
               (\<lambda>n'. (None, n'\<lparr>fresh := False\<rparr>))
         | Inr v \<Rightarrow> (Some TypeError, n))
      else if counter n = 0 then emit rt ''Final'' ''Control'' n
      else emit rt ''LoopBody'' ''Control'' (n\<lparr>counter := counter n - 1\<rparr>))"

definition Loop_notify :: "graph \<Rightarrow> nat \<Rightarrow> store \<Rightarrow> error option \<times> store" where
  "Loop_notify g sid st =
     (case st sid of
        None \<Rightarrow> (Some NoSuchNode, st)
      | Some self \<Rightarrow>
          (if counter self > 0 then
             and_then (push_output g ''LoopBody'' True sid st)
               (on_node sid (reset_input ''Control''))
           else
             and_then (push_output g ''Final'' False sid st)
               (on_node sid (\<lambda>n. (None, reset_but_Iterations (n\<lparr>fresh := True\<rparr>))))))"

subsection \<open>ForEach\<close>






section \<open>The scheduler's protocol\<close>

text \<open>
  Modelled from the spec: the scheduler that drives the nodes is not part of node.py.
  The specification has it call \<^verbatim>\<open>check\<close>, defer a node whose \<^verbatim>\<open>check\<close> is not true,
  and otherwise call \<^verbatim>\<open>run\<close> and then \<^verbatim>\<open>notify\<close>.  \<open>ready\<close> is the test and \<open>fire\<close> the
  two calls, \<^verbatim>\<open>notify\<close> only when \<^verbatim>\<open>run\<close> raised nothing; the methods themselves are the
  ones of node.py above.
\<close>

definition ready :: "(node \<Rightarrow> error + pyval) \<Rightarrow> nat \<Rightarrow> store \<Rightarrow> bool" where
  "ready check sid st =
     (case st sid of
        None \<Rightarrow> False
      | Some n \<Rightarrow> (case check n of Inl e \<Rightarrow> False | Inr r \<Rightarrow> truthy r))"

definition fire ::
  "(node \<Rightarrow> error option \<times> node) \<Rightarrow> (nat \<Rightarrow> store \<Rightarrow> error option \<times> store) \<Rightarrow> nat \<Rightarrow> store
     \<Rightarrow> error option \<times> store"
where
  "fire run notify sid st = and_then (on_node sid run st) (notify sid)"

section \<open>Notions of the specification\<close>




section \<open>Notions for the properties of a store\<close>

text \<open>The input port \<open>i\<close> of node \<open>m\<close> in a store, if there is one.\<close>

definition port :: "store \<Rightarrow> nat \<Rightarrow> string \<Rightarrow> info option" where
  "port st m i = (case st m of None \<Rightarrow> None | Some n \<Rightarrow> map_of (inputs n) i)"

text \<open>The input a connection leads to.\<close>

definition target :: "connection \<Rightarrow> nat \<times> string" where
  "target c = (inputNode c, inputName c)"

text \<open>A port after an object has been written to it.\<close>

definition stored :: "pyval \<Rightarrow> info \<Rightarrow> info" where
  "stored v p = p\<lparr>value_p := v, valueSet := True\<rparr>"

text \<open>The connections of a list that lead to input \<open>i\<close> of node \<open>m\<close>, in order.\<close>

definition arrivals :: "connection list \<Rightarrow> nat \<Rightarrow> string \<Rightarrow> connection list" where
  "arrivals cs m i = filter (\<lambda>c. inputNode c = m \<and> inputName c = i) cs"

text \<open>What a connection carries: \<open>sel\<close> of the output port it starts from.\<close>

definition sent :: "(info \<Rightarrow> pyval) \<Rightarrow> (string \<times> info) list \<Rightarrow> connection \<Rightarrow> pyval" where
  "sent sel outs c = (case map_of outs (outputName c) of None \<Rightarrow> PNone | Some out \<Rightarrow> sel out)"

text \<open>The connections lead to distinct inputs, each there and without a value.\<close>

definition unset_targets :: "store \<Rightarrow> connection list \<Rightarrow> bool" where
  "unset_targets st cs =
     (distinct (map target cs) \<and>
      list_all (\<lambda>c. case port st (inputNode c) (inputName c) of
                      None \<Rightarrow> False
                    | Some p \<Rightarrow> \<not> valueSet p) cs)"

text \<open>
  What is asked of the graph for the output \<open>item\<close> of node \<open>sid\<close>: the connections it
  reports start from that output and lead to inputs that exist, on nodes other than
  \<open>sid\<close>.  \<open>feeds_unset\<close> asks moreover that the inputs are distinct and hold no value,
  as a write without \<^verbatim>\<open>override\<close> needs.
\<close>

definition feeds :: "graph \<Rightarrow> store \<Rightarrow> nat \<Rightarrow> string \<Rightarrow> bool" where
  "feeds g st sid item =
     list_all (\<lambda>c. outputName c = item \<and> inputNode c \<noteq> sid
                 \<and> port st (inputNode c) (inputName c) \<noteq> None)
       (getConnectionsOfOutput g sid item)"

definition feeds_unset :: "graph \<Rightarrow> store \<Rightarrow> nat \<Rightarrow> string \<Rightarrow> bool" where
  "feeds_unset g st sid item =
     (feeds g st sid item \<and> unset_targets st (getConnectionsOfOutput g sid item))"

text \<open>Every input that the connections lead to holds the value \<open>v\<close>.\<close>

definition received :: "store \<Rightarrow> connection list \<Rightarrow> pyval \<Rightarrow> bool" where
  "received st cs v =
     list_all (\<lambda>c. case port st (inputNode c) (inputName c) of
                      None \<Rightarrow> False
                    | Some p \<Rightarrow> valueSet p \<and> value_p p = v) cs"

text \<open>The value an output port of a node holds, if one was set.\<close>

definition output_value :: "node \<Rightarrow> string \<Rightarrow> pyval option" where
  "output_value n item =
     (case map_of (outputs n) item of
        None \<Rightarrow> None
      | Some out \<Rightarrow> (if valueSet out then Some (value_p out) else None))"

text \<open>
  A node has the ports of a class: the same keys in the same order, and under each key a
  port of the same name, type and list flag.  Every method above keeps this.
\<close>

definition shape :: "(string \<times> info) list \<Rightarrow> (string \<times> string \<times> vartype \<times> bool) list" where
  "shape ps = map (\<lambda>(k, p). (k, name p, varType p, list_p p)) ps"

definition instance_of :: "node_class \<Rightarrow> node \<Rightarrow> bool" where
  "instance_of cls n =
     (shape (inputs n) = shape (c_inputs cls) \<and> shape (outputs n) = shape (c_outputs cls))"


text \<open>
  A \<^verbatim>\<open>Loop\<close> node between its first and its last cycle: it has the ports of the class,
  is not fresh, and its counter is \<open>k\<close>.  \<open>holds\<close> says that an input of a node has
  been written and what it holds.
\<close>

definition counting :: "node \<Rightarrow> int \<Rightarrow> bool" where
  "counting n k = (instance_of Loop_class n \<and> \<not> fresh n \<and> counter n = k)"

definition holds :: "node \<Rightarrow> string \<Rightarrow> pyval \<Rightarrow> bool" where
  "holds n item v =
     (case map_of (inputs n) item of
        None \<Rightarrow> False
      | Some p \<Rightarrow> valueSet p \<and> value_p p = v)"

section \<open>Example data\<close>

text \<open>A runtime in which no string is a float literal and \<^verbatim>\<open>checkType\<close> accepts all.\<close>

definition rt0 :: runtime where
  "rt0 = \<lparr> float_of_str = (\<lambda>s. None), float_of_int = (\<lambda>i. None), str_of = (\<lambda>v. []),
           checkType = (\<lambda>n v. Inr v), newType = (\<lambda>n v. Inl TypeError) \<rparr>"

text \<open>A \<^verbatim>\<open>bool\<close> port as \<^verbatim>\<open>Input('Value', bool)\<close> declares it, and one that holds a value.\<close>

definition bool_port :: info where
  "bool_port = port_of_decl (addInput ''Value'' TBool None None None None)"

definition set_port :: info where
  "set_port = (port_of_decl (addInput ''Value'' TInt None None None None))
                \<lparr>value_p := PStr ''12'', valueSet := True\<rparr>"

text \<open>Two more classes of node.py, a new instance of a class, and an instance with an
  input written.\<close>

definition CreateString_class :: node_class where
  "CreateString_class =
     new_class (Some Node_class)
       [addInput ''Str'' TStr None None None None]
       [addOutput ''String'' TStr None None None None]
       []"

definition DebugPrint_class :: node_class where
  "DebugPrint_class =
     new_class (Some (new_class (Some Node_class) [] [] [''Debug'']))
       [addInput ''Object'' TObject None None None None]
       [addOutput ''Out'' TObject None None None None]
       []"

definition new_node :: "node_class \<Rightarrow> nat \<Rightarrow> node" where
  "new_node cls k =
     (case Node_init cls k of
        Inr n \<Rightarrow> n
      | Inl e \<Rightarrow> \<lparr>inputs = [], outputs = [], fresh = True, counter = 0, done_f = False\<rparr>)"

definition with_input :: "string \<Rightarrow> pyval \<Rightarrow> node \<Rightarrow> node" where
  "with_input item v n = snd (setInput item v False n)"

text \<open>
  A graph around node 0: each of its outputs has one connection, to the input
  \<^verbatim>\<open>Object\<close> of a \<^verbatim>\<open>DebugPrint\<close> node; the outputs \<^verbatim>\<open>False\<close> and \<^verbatim>\<open>Final\<close> have nodes
  of their own.
\<close>

definition wire :: "string \<Rightarrow> nat \<Rightarrow> connection" where
  "wire item k = \<lparr>outputName = item, inputNode = k, inputName = ''Object''\<rparr>"

definition ex_graph :: graph where
  "ex_graph =
     \<lparr> getConnectionsFrom = (\<lambda>k. if k = 0 then [wire ''String'' 1] else []),
       getConnectionsOfOutput =
         (\<lambda>k item. if k \<noteq> 0 then []
                    else if item = ''False'' then [wire item 2]
                    else if item = ''Final'' then [wire item 3]
                    else [wire item 1]) \<rparr>"

definition sinks :: store where
  "sinks = [1 \<mapsto> new_node DebugPrint_class 1,
            2 \<mapsto> new_node DebugPrint_class 2,
            3 \<mapsto> new_node DebugPrint_class 3]"

definition switch_node :: node where
  "switch_node =
     with_input ''Switch'' (PBool True) (with_input ''Start'' (PObj 7) (new_node SwitchNode_class 0))"

definition switch_store :: store where
  "switch_store = sinks(0 \<mapsto> switch_node)"




text \<open>
  A \<^verbatim>\<open>CreateString\<close> node after its \<^verbatim>\<open>run\<close> (\<^verbatim>\<open>self._String(self._Str)\<close>), and one
  that has not run; the node after them holds a value from an earlier cycle.
\<close>

definition string_node :: node where
  "string_node = with_input ''Str'' (PStr ''hi'') (new_node CreateString_class 0)"

definition string_store :: store where
  "string_store =
     [0 \<mapsto> snd (emit rt0 ''String'' ''Str'' string_node),
      1 \<mapsto> with_input ''Object'' (PInt 5) (new_node DebugPrint_class 1)]"

definition string_store_idle :: store where
  "string_store_idle = string_store(0 \<mapsto> string_node)"

text \<open>
  A \<^verbatim>\<open>ForEach\<close> node over the list \<^verbatim>\<open>[1, 2, 3]\<close> in the same graph, and its four
  cycles; before the second, third and fourth, the nodes after it run and an object is
  written to \<^verbatim>\<open>Control\<close>.
\<close>

definition foreach_node :: node where
  "foreach_node =
     with_input ''Start'' (PList [PInt 1, PInt 2, PInt 3]) (new_node ForEach_class 0)"

definition foreach_store :: store where
  "foreach_store = sinks(0 \<mapsto> foreach_node)"


definition refill :: "pyval \<Rightarrow> store \<Rightarrow> error option \<times> store" where
  "refill v = on_node 0 (setInput ''Control'' v True)"

text \<open>The store once the nodes after node 0 have run and are as new; node 0 is as it
  was.\<close>

definition consumed :: "store \<Rightarrow> store" where
  "consumed st = (\<lambda>m. if m = 0 then st 0 else sinks m)"





text \<open>
  A \<^verbatim>\<open>Loop\<close> node with \<^verbatim>\<open>Iterations\<close> 3 and an object in \<^verbatim>\<open>Start\<close>, in the same graph,
  and its four cycles with the same writes to \<^verbatim>\<open>Control\<close> between them.
\<close>

definition loop_node :: node where
  "loop_node =
     with_input ''Iterations'' (PInt 3) (with_input ''Start'' (PObj 7) (new_node Loop_class 0))"

definition loop_store :: store where
  "loop_store = sinks(0 \<mapsto> loop_node)"

definition loop_fire :: "store \<Rightarrow> error option \<times> store" where
  "loop_fire = fire (Loop_run rt0) (Loop_notify ex_graph) 0"

definition loop_cycle1 :: "error option \<times> store" where
  "loop_cycle1 = loop_fire loop_store"

definition loop_cycle2 :: "error option \<times> store" where
  "loop_cycle2 = loop_fire (snd (refill (PObj 11) (consumed (snd loop_cycle1))))"

definition loop_cycle3 :: "error option \<times> store" where
  "loop_cycle3 = loop_fire (snd (refill (PObj 12) (consumed (snd loop_cycle2))))"

definition loop_cycle4 :: "error option \<times> store" where
  "loop_cycle4 = loop_fire (snd (refill (PObj 13) (consumed (snd loop_cycle3))))"

section \<open>Properties of ports\<close>

text \<open>
  Claim C2.  On a port of type \<^verbatim>\<open>bool\<close>, \<^verbatim>\<open>setDefault\<close> with a string stores the
  boolean that says whether the string is \<^verbatim>\<open>TRUE\<close> once put in upper case (so \<^verbatim>\<open>False\<close>
  for every other string), and raises nothing.  A read of the port, when it is not
  connected and holds no value, returns that boolean.
\<close>

theorem setDefault_bool_literal:
  assumes "varType p = TBool"
  shows "setDefault rt p (PStr s) = (None, p\<lparr>default_p := PBool (upper s = ''TRUE'')\<rparr>)
         \<and> (\<not> valueSet p \<and> \<not> connected p \<longrightarrow>
              InputInfo_call rt (snd (setDefault rt p (PStr s))) nx
                = Inr (PBool (upper s = ''TRUE'')))"
  using assms
  by (simp add: setDefault_def setDefault_bool_def is_Type_def InputInfo_call_def)

theorem setDefault_bool_literal_witness:
  "varType bool_port = TBool
   \<and> setDefault rt0 bool_port (PStr ''true'') = (None, bool_port\<lparr>default_p := PBool True\<rparr>)
   \<and> setDefault rt0 bool_port (PStr ''yes'') = (None, bool_port\<lparr>default_p := PBool False\<rparr>)
   \<and> InputInfo_call rt0 (snd (setDefault rt0 bool_port (PStr ''true''))) False = Inr (PBool True)
   \<and> InputInfo_call rt0 (snd (setDefault rt0 bool_port (PStr ''yes''))) False = Inr (PBool False)"
proof -
  have t: "varType bool_port = TBool"
    by (simp add: bool_port_def port_of_decl_def addInput_def Info_init_def)
  have f: "\<not> valueSet bool_port \<and> \<not> connected bool_port"
    by (simp add: bool_port_def port_of_decl_def addInput_def Info_init_def)
  have u: "upper ''true'' = ''TRUE''" "upper ''yes'' \<noteq> ''TRUE''"
    by (simp_all add: upper_def upper_char_def)
  show ?thesis
    using t f u
      setDefault_bool_literal [OF t, of rt0 "''true''" False]
      setDefault_bool_literal [OF t, of rt0 "''yes''" False]
    by auto
qed



text \<open>
  Claim C4.  A write to an input port that holds a value, without \<^verbatim>\<open>override\<close>,
  raises \<^verbatim>\<open>InputAlreadySet\<close> and leaves the port as it was.  A write with
  \<^verbatim>\<open>override\<close>, like a write to a port without a value, raises nothing and stores the
  object given, whatever the type of the port: nothing is coerced or checked.
\<close>

theorem InputInfo_set_cases:
  "(valueSet p \<longrightarrow> InputInfo_set p v False = (Some InputAlreadySet, p))
   \<and> (\<not> valueSet p \<longrightarrow> InputInfo_set p v False = (None, p\<lparr>value_p := v, valueSet := True\<rparr>))
   \<and> InputInfo_set p v True = (None, p\<lparr>value_p := v, valueSet := True\<rparr>)"
  by (simp add: InputInfo_set_def)

theorem InputInfo_set_cases_witness:
  "valueSet set_port
   \<and> InputInfo_set set_port (PObj 7) False = (Some InputAlreadySet, set_port)
   \<and> InputInfo_set set_port (PObj 7) True = (None, set_port\<lparr>value_p := PObj 7\<rparr>)
   \<and> \<not> valueSet bool_port
   \<and> InputInfo_set bool_port (PStr ''x'') False
       = (None, bool_port\<lparr>value_p := PStr ''x'', valueSet := True\<rparr>)"
proof -
  have s: "valueSet set_port" by (simp add: set_port_def)
  have u: "\<not> valueSet bool_port"
    by (simp add: bool_port_def port_of_decl_def addInput_def Info_init_def)
  have e: "set_port\<lparr>value_p := PObj 7, valueSet := True\<rparr> = set_port\<lparr>value_p := PObj 7\<rparr>"
    by (simp add: set_port_def)
  show ?thesis
    using s u e InputInfo_set_cases [of set_port "PObj 7"]
      InputInfo_set_cases [of bool_port "PStr ''x''"]
    by simp
qed

text \<open>
  Claim C8.  \<^verbatim>\<open>reset\<close> clears the default, the value and the set flag of a port, and a
  second \<^verbatim>\<open>reset\<close> changes nothing more.  After it \<^verbatim>\<open>isAvailable\<close> is decided by the
  default and the connected flag of the port as \<^verbatim>\<open>reset\<close> left it, and is the same
  whatever value the port held before; since the default is cleared too, it is false.
\<close>

theorem reset_idempotent_available:
  "default_p (reset p) = PNone \<and> value_p (reset p) = PNone \<and> \<not> valueSet (reset p)
   \<and> reset (reset p) = reset p
   \<and> isAvailable (reset p) = (default_p (reset p) \<noteq> PNone \<and> \<not> connected (reset p))
   \<and> isAvailable (reset (p\<lparr>value_p := v, valueSet := b\<rparr>)) = isAvailable (reset p)
   \<and> \<not> isAvailable (reset p)"
  by (simp add: reset_def isAvailable_def)

theorem reset_idempotent_available_witness:
  "isAvailable set_port \<and> \<not> isAvailable (reset set_port)
   \<and> reset (reset set_port) = reset set_port
   \<and> default_p (reset set_port) = PNone \<and> value_p (reset set_port) = PNone
   \<and> \<not> valueSet (reset set_port)"
  using reset_idempotent_available [of set_port]
  by (simp add: set_port_def isAvailable_def)

text \<open>
  Claim C10.  A port built from a declaration that gives no default has the empty
  string as its default, not \<^verbatim>\<open>None\<close>.  Such a port, not connected and without a
  value, is available, and a read of it does not raise \<^verbatim>\<open>InputNotAvailable\<close>: for
  type \<^verbatim>\<open>object\<close> it returns the empty string, and otherwise it calls the class on the
  empty string, which for \<^verbatim>\<open>int\<close> and \<^verbatim>\<open>float\<close> raises \<^verbatim>\<open>ValueError\<close>.  The owner,
  which a node instance sets on its copy of the port, makes no difference.
\<close>

theorem undeclared_default_is_empty_string:
  "default_p (port_of_decl (addInput n vt hs None sel l)) = PStr []
   \<and> isAvailable ((port_of_decl (addInput n vt hs None sel l))\<lparr>owner := ow\<rparr>)
   \<and> InputInfo_call rt ((port_of_decl (addInput n vt hs None sel l))\<lparr>owner := ow\<rparr>) nx
       = (if vt = TObject then Inr (PStr []) else construct rt vt (PStr []))
   \<and> (vt = TInt \<or> vt = TFloat \<longrightarrow>
        InputInfo_call rt ((port_of_decl (addInput n vt hs None sel l))\<lparr>owner := ow\<rparr>) nx
          = Inl ValueError)"
  by (auto simp add: port_of_decl_def addInput_def Info_init_def isAvailable_def
      InputInfo_call_def parse_int_def strip_def split: vartype.splits)

theorem undeclared_default_is_empty_string_witness:
  "default_p (port_of_decl (addInput ''Value'' TInt None None None None)) = PStr []
   \<and> isAvailable (port_of_decl (addInput ''Value'' TInt None None None None))
   \<and> InputInfo_call rt0 (port_of_decl (addInput ''Value'' TInt None None None None)) False
       = Inl ValueError
   \<and> InputInfo_call rt0 (port_of_decl (addInput ''Value'' TFloat None None None None)) True
       = Inl ValueError"
proof -
  have o: "\<And>d. (port_of_decl d)\<lparr>owner := None\<rparr> = port_of_decl d"
    by (simp add: port_of_decl_def Info_init_def)
  show ?thesis
    using undeclared_default_is_empty_string [of "''Value''" TInt None None None None rt0 False]
      undeclared_default_is_empty_string [of "''Value''" TFloat None None None None rt0 True]
    by (simp add: o addInput_def parse_int_def strip_def)
qed

section \<open>Properties of node classes\<close>






section \<open>Writes along connections\<close>

lemma reset_stored [simp]: "reset (stored v p) = reset p"
  by (simp add: reset_def stored_def)

lemma stored_stored [simp]: "stored v (stored w p) = stored v p"
  by (simp add: stored_def)

lemma reset_update_stored:
  "map_of al i = Some p \<Longrightarrow>
   map (\<lambda>(k, q). (k, reset q)) (AList.update i (stored v p) al) = map (\<lambda>(k, q). (k, reset q)) al"
  by (induction al) (auto split: if_splits)

lemma setInput_ok:
  assumes "map_of (inputs n) i = Some p" and "ov \<or> \<not> valueSet p"
  shows "setInput i v ov n = (None, n\<lparr>inputs := AList.update i (stored v p) (inputs n)\<rparr>)"
  using assms by (auto simp add: setInput_def InputInfo_set_def stored_def)

lemma on_node_setInput:
  assumes "port st m0 i0 = Some p" and "ov \<or> \<not> valueSet p"
  obtains st1 where "on_node m0 (setInput i0 v ov) st = (None, st1)"
    and "\<And>m i. port st1 m i = (if m = m0 \<and> i = i0 then Some (stored v p) else port st m i)"
    and "\<And>m. m \<noteq> m0 \<Longrightarrow> st1 m = st m"
    and "\<And>m. map_option reset_all (st1 m) = map_option reset_all (st m)"
proof -
  from assms(1) obtain n where n: "st m0 = Some n" "map_of (inputs n) i0 = Some p"
    by (auto simp add: port_def split: option.splits)
  let ?n1 = "n\<lparr>inputs := AList.update i0 (stored v p) (inputs n)\<rparr>"
  let ?st1 = "st(m0 \<mapsto> ?n1)"
  have 1: "on_node m0 (setInput i0 v ov) st = (None, ?st1)"
    using n setInput_ok [OF n(2) assms(2)] by (simp add: on_node_def)
  have 2: "\<And>m i. port ?st1 m i = (if m = m0 \<and> i = i0 then Some (stored v p) else port st m i)"
    using n by (simp add: port_def update_conv')
  have 3: "\<And>m. m \<noteq> m0 \<Longrightarrow> ?st1 m = st m" by simp
  have 4: "\<And>m. map_option reset_all (?st1 m) = map_option reset_all (st m)"
    using n reset_update_stored [OF n(2)] by (simp add: reset_all_def)
  from 1 2 3 4 show ?thesis using that by blast
qed

lemma reset_all_outputs: "reset_all a = reset_all b \<Longrightarrow> outputs a = outputs b"
  by (metis (no_types, lifting) reset_all_def node.select_convs(2) node.surjective node.update_convs(1))

lemma push_ports:
  assumes "st sid = Some self"
    and "\<forall>c\<in>set cs. map_of (outputs self) (outputName c) \<noteq> None"
    and "\<forall>c\<in>set cs. port st (inputNode c) (inputName c) \<noteq> None"
    and "ov \<or> unset_targets st cs"
  shows "\<exists>st'. push sel ov sid cs st = (None, st')
     \<and> (\<forall>m. m \<notin> inputNode ` set cs \<longrightarrow> st' m = st m)
     \<and> (\<forall>m. map_option reset_all (st' m) = map_option reset_all (st m))
     \<and> (\<forall>m i. port st' m i =
          (if arrivals cs m i = [] then port st m i
           else map_option (stored (sent sel (outputs self) (last (arrivals cs m i)))) (port st m i)))"
  using assms
proof (induction cs arbitrary: st self)
  case Nil
  then show ?case by (simp add: arrivals_def)
next
  case (Cons c cs)
  obtain out where out: "map_of (outputs self) (outputName c) = Some out"
    using Cons.prems(2) by auto
  obtain p where p: "port st (inputNode c) (inputName c) = Some p"
    using Cons.prems(3) by auto
  have free: "ov \<or> \<not> valueSet p"
    using Cons.prems(4) p by (auto simp add: unset_targets_def)
  obtain st1 where st1: "on_node (inputNode c) (setInput (inputName c) (sel out) ov) st = (None, st1)"
    and port1: "\<And>m i. port st1 m i =
        (if m = inputNode c \<and> i = inputName c then Some (stored (sel out) p) else port st m i)"
    and other1: "\<And>m. m \<noteq> inputNode c \<Longrightarrow> st1 m = st m"
    and reset1: "\<And>m. map_option reset_all (st1 m) = map_option reset_all (st m)"
    using on_node_setInput [OF p free] by metis
  from reset1 [of sid] Cons.prems(1) obtain self1 where self1: "st1 sid = Some self1"
    and r: "reset_all self1 = reset_all self"
    by (cases "st1 sid") auto
  have outs1: "outputs self1 = outputs self"
    using r by (rule reset_all_outputs)
  have a2: "\<forall>c\<in>set cs. map_of (outputs self1) (outputName c) \<noteq> None"
    using Cons.prems(2) outs1 by simp
  have a3: "\<forall>c\<in>set cs. port st1 (inputNode c) (inputName c) \<noteq> None"
    using Cons.prems(3) port1 by simp
  have a4: "ov \<or> unset_targets st1 cs"
  proof (cases ov)
    case False
    with Cons.prems(4) have u: "unset_targets st (c # cs)" by simp
    then have d: "distinct (map target cs)" and nt: "target c \<notin> target ` set cs"
      by (auto simp add: unset_targets_def)
    have "\<And>c'. c' \<in> set cs \<Longrightarrow> port st1 (inputNode c') (inputName c') = port st (inputNode c') (inputName c')"
      using nt port1 by (auto simp add: target_def image_iff)
    with u d show ?thesis
      by (auto simp add: unset_targets_def list_all_iff)
  qed simp
  from Cons.IH [OF self1 a2 a3 a4] obtain st' where
    push': "push sel ov sid cs st1 = (None, st')"
    and other': "\<forall>m. m \<notin> inputNode ` set cs \<longrightarrow> st' m = st1 m"
    and reset': "\<forall>m. map_option reset_all (st' m) = map_option reset_all (st1 m)"
    and port': "\<forall>m i. port st' m i =
          (if arrivals cs m i = [] then port st1 m i
           else map_option (stored (sent sel (outputs self1) (last (arrivals cs m i)))) (port st1 m i))"
    by blast
  have 1: "push sel ov sid (c # cs) st = (None, st')"
    using Cons.prems(1) out st1 push' by (simp add: and_then_def)
  have 2: "\<forall>m. m \<notin> inputNode ` set (c # cs) \<longrightarrow> st' m = st m"
    using other' other1 by simp
  have 3: "\<forall>m. map_option reset_all (st' m) = map_option reset_all (st m)"
    using reset' reset1 by simp
  have 4: "\<forall>m i. port st' m i =
          (if arrivals (c # cs) m i = [] then port st m i
           else map_option (stored (sent sel (outputs self) (last (arrivals (c # cs) m i)))) (port st m i))"
    using port' port1 p out outs1
    by (auto simp add: arrivals_def sent_def)
  from 1 2 3 4 show ?case by blast
qed

text \<open>The connections of one output all carry its value.\<close>

lemma push_output_ports:
  assumes self: "st sid = Some self"
    and out: "map_of (outputs self) item = Some out" "name out = item"
    and feeds: "feeds g st sid item"
    and free: "ov \<or> unset_targets st (getConnectionsOfOutput g sid item)"
  shows "\<exists>st'. push_output g item ov sid st = (None, st')
     \<and> st' sid = Some self
     \<and> received st' (getConnectionsOfOutput g sid item) (value_p out)
     \<and> (\<forall>m. m \<notin> inputNode ` set (getConnectionsOfOutput g sid item) \<longrightarrow> st' m = st m)
     \<and> (\<forall>m i. (m, i) \<notin> target ` set (getConnectionsOfOutput g sid item) \<longrightarrow> port st' m i = port st m i)"
proof -
  let ?cs = "getConnectionsOfOutput g sid item"
  from feeds have f: "\<forall>c\<in>set ?cs. outputName c = item \<and> inputNode c \<noteq> sid
      \<and> port st (inputNode c) (inputName c) \<noteq> None"
    by (simp add: feeds_def list_all_iff)
  have a2: "\<forall>c\<in>set ?cs. map_of (outputs self) (outputName c) \<noteq> None"
    using f out by simp
  have a3: "\<forall>c\<in>set ?cs. port st (inputNode c) (inputName c) \<noteq> None"
    using f by simp
  from push_ports [OF self a2 a3 free, of value_p] obtain st' where
    1: "push value_p ov sid ?cs st = (None, st')"
    and 2: "\<forall>m. m \<notin> inputNode ` set ?cs \<longrightarrow> st' m = st m"
    and 4: "\<forall>m i. port st' m i =
          (if arrivals ?cs m i = [] then port st m i
           else map_option (stored (sent value_p (outputs self) (last (arrivals ?cs m i)))) (port st m i))"
    by blast
  have p: "push_output g item ov sid st = (None, st')"
    using self out 1 by (simp add: push_output_def)
  have s: "st' sid = Some self"
    using 2 f self by (metis image_iff)
  have r: "received st' ?cs (value_p out)"
    unfolding received_def list_all_iff
  proof
    fix c assume c: "c \<in> set ?cs"
    let ?as = "arrivals ?cs (inputNode c) (inputName c)"
    from c have ne: "?as \<noteq> []"
      by (auto simp add: arrivals_def filter_empty_conv)
    then have "last ?as \<in> set ?as" by simp
    then have "last ?as \<in> set ?cs" by (simp add: arrivals_def)
    with f out have v: "sent value_p (outputs self) (last ?as) = value_p out"
      by (simp add: sent_def)
    from a3 c obtain q where q: "port st (inputNode c) (inputName c) = Some q" by auto
    with 4 ne v have "port st' (inputNode c) (inputName c) = Some (stored (value_p out) q)"
      by simp
    then show "case port st' (inputNode c) (inputName c) of None \<Rightarrow> False
                 | Some p \<Rightarrow> valueSet p \<and> value_p p = value_p out"
      by (simp add: stored_def)
  qed
  have t: "\<forall>m i. (m, i) \<notin> target ` set ?cs \<longrightarrow> port st' m i = port st m i"
  proof (intro allI impI)
    fix m i assume "(m, i) \<notin> target ` set ?cs"
    then have "arrivals ?cs m i = []"
      by (auto simp add: arrivals_def filter_empty_conv target_def image_iff)
    with 4 show "port st' m i = port st m i" by simp
  qed
  from p s r 2 t show ?thesis by blast
qed

lemma on_node_Some:
  "st sid = Some n \<Longrightarrow> f n = (r, n') \<Longrightarrow> on_node sid f st = (r, st(sid \<mapsto> n'))"
  by (simp add: on_node_def)

lemma received_upd:
  "\<forall>c\<in>set cs. inputNode c \<noteq> sid \<Longrightarrow> received (st(sid \<mapsto> n)) cs v = received st cs v"
  by (simp add: received_def list_all_iff port_def)

lemma feeds_not_self: "feeds g st sid item \<Longrightarrow> \<forall>c\<in>set (getConnectionsOfOutput g sid item). inputNode c \<noteq> sid"
  by (simp add: feeds_def list_all_iff)


lemmas class_defs = Node_class_def ControlNode_class_def SwitchNode_class_def Loop_class_def ForEach_class_def
  new_class_def add_ports_def port_of_decl_def addInput_def addOutput_def Info_init_def
lemmas init_defs = Node_init_def own_ports_def setOwner_def


lemma feeds_upd_self [simp]: "feeds g (st(sid \<mapsto> n)) sid item = feeds g st sid item"
  by (auto simp add: feeds_def list_all_iff port_def)

lemma unset_targets_upd:
  "\<forall>c\<in>set cs. inputNode c \<noteq> sid \<Longrightarrow> unset_targets (st(sid \<mapsto> n)) cs = unset_targets st cs"
  by (auto simp add: unset_targets_def list_all_iff port_def)

lemma feeds_unset_upd_self [simp]: "feeds_unset g (st(sid \<mapsto> n)) sid item = feeds_unset g st sid item"
  by (auto simp add: feeds_unset_def feeds_def unset_targets_def list_all_iff port_def)

lemma read_available:
  "InputInfo_call rt p False = Inr v \<Longrightarrow> isAvailable p"
  by (auto simp add: InputInfo_call_def isAvailable_def split: if_splits)


lemmas ex_defs = switch_store_def switch_node_def sinks_def ex_graph_def wire_def with_input_def
  new_node_def DebugPrint_class_def CreateString_class_def string_node_def string_store_def
  string_store_idle_def foreach_node_def foreach_store_def loop_node_def loop_store_def

section \<open>Properties of the default notify\<close>



section \<open>Properties of the switch node\<close>



section \<open>Properties of the for-each node\<close>

lemma ready_same_node: "sa sid = sb sid \<Longrightarrow> ready chk sid sa = ready chk sid sb"
  by (simp add: ready_def)





lemma feeds_on_node [simp]: "feeds g (snd (on_node sid f st)) sid item = feeds g st sid item"
  by (auto simp add: on_node_def feeds_def list_all_iff port_def split: option.splits prod.splits)

lemma feeds_unset_on_node [simp]:
  "feeds_unset g (snd (on_node sid f st)) sid item = feeds_unset g st sid item"
  by (auto simp add: on_node_def feeds_unset_def feeds_def unset_targets_def list_all_iff port_def
      split: option.splits prod.splits)

lemma feeds_consumed:
  "feeds ex_graph (consumed st) 0 item \<and> feeds_unset ex_graph (consumed st) 0 item"
  by (simp add: feeds_unset_def feeds_def unset_targets_def port_def consumed_def ex_defs
      class_defs init_defs target_def)

lemma sinks_ready: "feeds ex_graph (sinks(0 \<mapsto> n)) 0 item \<and> feeds_unset ex_graph (sinks(0 \<mapsto> n)) 0 item"
  by (simp add: feeds_unset_def feeds_def unset_targets_def port_def ex_defs
      class_defs init_defs target_def)



section \<open>The counted loop\<close>

text \<open>
  One cycle of a \<^verbatim>\<open>Loop\<close> node: the first, a write to \<^verbatim>\<open>Control\<close>, a cycle with the
  counter above 1, and the cycle with the counter at 1.  In that last cycle \<^verbatim>\<open>run\<close>
  lowers the counter to 0 and stores the \<^verbatim>\<open>Control\<close> object in the output
  \<^verbatim>\<open>LoopBody\<close>; \<^verbatim>\<open>notify\<close> then finds the counter at 0 and sends the value of the
  output \<^verbatim>\<open>Final\<close>, which \<^verbatim>\<open>run\<close> has not touched.
\<close>

lemma Loop_ports:
  assumes "instance_of Loop_class n"
  obtains p1 p2 p3 o1 o2 where
    "inputs n = [(''Start'', p1), (''Control'', p2), (''Iterations'', p3)]"
    "outputs n = [(''Final'', o1), (''LoopBody'', o2)]"
    "varType p1 = TObject" "varType p2 = TObject" "varType p3 = TInt"
    "name p1 = ''Start''" "name p2 = ''Control''" "name p3 = ''Iterations''"
    "name o1 = ''Final''" "name o2 = ''LoopBody''"
  using assms
  by (auto simp add: instance_of_def shape_def class_defs map_eq_Cons_conv)

lemma loop_first:
  assumes inst: "instance_of Loop_class n" and fr: "fresh n"
    and here: "st sid = Some n"
    and start: "read_attr rt n ''Start'' = Inr S"
    and its: "read_attr rt n ''Iterations'' = Inr (PInt N)" and pos: "0 < N"
    and con: "feeds g st sid ''LoopBody''"
    and res: "fire (Loop_run rt) (Loop_notify g) sid st = (e, st')"
  obtains n' where "ready Loop_check sid st" "e = None"
    "st' sid = Some n'" "counting n' N"
    "map_of (outputs n') ''Final'' = map_of (outputs n) ''Final''"
    "received st' (getConnectionsOfOutput g sid ''LoopBody'') S"
    "\<not> ready Loop_check sid st'"
proof -
  from inst obtain p1 p2 p3 o1 o2 where
    ins: "inputs n = [(''Start'', p1), (''Control'', p2), (''Iterations'', p3)]"
    and outs: "outputs n = [(''Final'', o1), (''LoopBody'', o2)]"
    and ty: "varType p1 = TObject" "varType p2 = TObject" "varType p3 = TInt"
    and nm: "name p1 = ''Start''" "name p2 = ''Control''" "name p3 = ''Iterations''"
      "name o1 = ''Final''" "name o2 = ''LoopBody''"
    by (rule Loop_ports)
  from start have r1: "InputInfo_call rt p1 False = Inr S"
    by (auto simp add: read_attr_def getattr_def ins outs split: sum.splits if_splits attr.splits)
  from its have r3: "InputInfo_call rt p3 False = Inr (PInt N)"
    by (auto simp add: read_attr_def getattr_def ins outs split: sum.splits if_splits attr.splits)
  have ready1: "ready Loop_check sid st"
    using here fr r1 r3 read_available
    by (auto simp add: ready_def Loop_check_def fresh_ready_def ins nm)
  define na where "na = n\<lparr>counter := N, outputs := [(''Final'', o1), (''LoopBody'', OutputInfo_call o2 S)],
      fresh := False\<rparr>"
  have run1: "Loop_run rt n = (None, na)"
    using fr r1 r3
    by (simp add: Loop_run_def emit_def read_attr_def getattr_def call_attr_def ins outs na_def
        and_then_def)
  define sta where "sta = st(sid \<mapsto> na)"
  have on1: "on_node sid (Loop_run rt) st = (None, sta)"
    using here run1 by (simp add: on_node_def sta_def)
  have sta_sid: "sta sid = Some na" by (simp add: sta_def)
  have outL: "map_of (outputs na) ''LoopBody'' = Some (OutputInfo_call o2 S)"
    "name (OutputInfo_call o2 S) = ''LoopBody''"
    by (simp_all add: na_def OutputInfo_call_def nm)
  have feedsa: "feeds g sta sid ''LoopBody''"
    using con by (simp add: sta_def)
  from push_output_ports [OF sta_sid outL feedsa, of True]
  obtain stb where pushb: "push_output g ''LoopBody'' True sid sta = (None, stb)"
    and stb_sid: "stb sid = Some na"
    and recb: "received stb (getConnectionsOfOutput g sid ''LoopBody'') (value_p (OutputInfo_call o2 S))"
    by blast
  define n1 where "n1 = na\<lparr>inputs := [(''Start'', p1), (''Control'', reset p2), (''Iterations'', p3)]\<rparr>"
  have notify1: "Loop_notify g sid sta = (None, stb(sid \<mapsto> n1))"
    using pos pushb stb_sid
    by (simp add: Loop_notify_def sta_def na_def and_then_def on_node_def reset_input_def n1_def ins)
  have fire1: "fire (Loop_run rt) (Loop_notify g) sid st = (None, stb(sid \<mapsto> n1))"
    using on1 notify1 by (simp add: fire_def and_then_def)
  from fire1 res have e: "e = None" and st': "st' = stb(sid \<mapsto> n1)" by simp_all
  have notself: "\<forall>c\<in>set (getConnectionsOfOutput g sid ''LoopBody''). inputNode c \<noteq> sid"
    using feedsa by (rule feeds_not_self)
  have rec1: "received (stb(sid \<mapsto> n1)) (getConnectionsOfOutput g sid ''LoopBody'') S"
    using recb received_upd [OF notself] by (simp add: OutputInfo_call_def)
  have c1: "counting n1 N"
    using inst
    by (simp add: counting_def n1_def na_def instance_of_def shape_def ins outs reset_def OutputInfo_call_def)
  have node1: "(stb(sid \<mapsto> n1)) sid = Some n1"
    "map_of (outputs n1) ''Final'' = map_of (outputs n) ''Final''"
    by (simp_all add: n1_def na_def outs)
  have notready: "\<not> ready Loop_check sid (stb(sid \<mapsto> n1))"
    by (simp add: ready_def n1_def na_def Loop_check_def control_ready_def isAvailable_def reset_def)
  show ?thesis
    using ready1 e node1(1) c1 node1(2) rec1 notready
    by (rule that [unfolded st'])
qed

lemma loop_refill:
  assumes cn: "counting n k" and pos: "0 < k"
    and here: "st sid = Some n"
    and idle: "\<not> ready Loop_check sid st"
    and refill: "on_node sid (setInput ''Control'' c ov) st = (q, st')"
  obtains n' where "q = None" "ready Loop_check sid st'"
    "st' sid = Some n'" "counting n' k" "holds n' ''Control'' c"
    "map_of (outputs n') ''Final'' = map_of (outputs n) ''Final''"
proof -
  from cn have inst: "instance_of Loop_class n" and nf: "\<not> fresh n" and k: "counter n = k"
    by (simp_all add: counting_def)
  from inst obtain p1 p2 p3 o1 o2 where
    ins: "inputs n = [(''Start'', p1), (''Control'', p2), (''Iterations'', p3)]"
    and outs: "outputs n = [(''Final'', o1), (''LoopBody'', o2)]"
    and ty: "varType p1 = TObject" "varType p2 = TObject" "varType p3 = TInt"
    and nm: "name p1 = ''Start''" "name p2 = ''Control''" "name p3 = ''Iterations''"
      "name o1 = ''Final''" "name o2 = ''LoopBody''"
    by (rule Loop_ports)
  from idle here nf k pos have unset: "\<not> valueSet p2"
    by (auto simp add: ready_def Loop_check_def control_ready_def ins isAvailable_def split: if_splits)
  define n' where "n' = n\<lparr>inputs := [(''Start'', p1), (''Control'', stored c p2), (''Iterations'', p3)]\<rparr>"
  have "on_node sid (setInput ''Control'' c ov) st = (None, st(sid \<mapsto> n'))"
    using here unset by (simp add: on_node_def setInput_def ins InputInfo_set_def n'_def stored_def)
  with refill have q: "q = None" and st': "st' = st(sid \<mapsto> n')" by simp_all
  have r: "ready Loop_check sid (st(sid \<mapsto> n'))"
    using nf k pos
    by (simp add: ready_def n'_def Loop_check_def control_ready_def isAvailable_def stored_def)
  have c: "counting n' k"
    using cn by (simp add: counting_def n'_def instance_of_def shape_def ins outs stored_def)
  have h: "(st(sid \<mapsto> n')) sid = Some n'" "holds n' ''Control'' c"
    "map_of (outputs n') ''Final'' = map_of (outputs n) ''Final''"
    by (simp_all add: n'_def holds_def stored_def)
  show ?thesis
    using q r h(1) c h(2) h(3)
    by (rule that [unfolded st'])
qed

lemma loop_body:
  assumes cn: "counting n k" and more: "1 < k"
    and here: "st sid = Some n"
    and ctl: "holds n ''Control'' c"
    and con: "feeds g st sid ''LoopBody''"
    and res: "fire (Loop_run rt) (Loop_notify g) sid st = (e, st')"
  obtains n' where "e = None"
    "st' sid = Some n'" "counting n' (k - 1)"
    "map_of (outputs n') ''Final'' = map_of (outputs n) ''Final''"
    "received st' (getConnectionsOfOutput g sid ''LoopBody'') c"
    "\<not> ready Loop_check sid st'"
proof -
  from cn have inst: "instance_of Loop_class n" and nf: "\<not> fresh n" and k: "counter n = k"
    by (simp_all add: counting_def)
  from inst obtain p1 p2 p3 o1 o2 where
    ins: "inputs n = [(''Start'', p1), (''Control'', p2), (''Iterations'', p3)]"
    and outs: "outputs n = [(''Final'', o1), (''LoopBody'', o2)]"
    and ty: "varType p1 = TObject" "varType p2 = TObject" "varType p3 = TInt"
    and nm: "name p1 = ''Start''" "name p2 = ''Control''" "name p3 = ''Iterations''"
      "name o1 = ''Final''" "name o2 = ''LoopBody''"
    by (rule Loop_ports)
  from ctl have p2: "valueSet p2" "value_p p2 = c"
    by (simp_all add: holds_def ins)
  define na where "na = n\<lparr>counter := k - 1, outputs := [(''Final'', o1), (''LoopBody'', OutputInfo_call o2 c)]\<rparr>"
  have run1: "Loop_run rt n = (None, na)"
    using nf k more p2 ty
    by (simp add: Loop_run_def emit_def read_attr_def getattr_def call_attr_def ins outs na_def
        InputInfo_call_def)
  define sta where "sta = st(sid \<mapsto> na)"
  have on1: "on_node sid (Loop_run rt) st = (None, sta)"
    using here run1 by (simp add: on_node_def sta_def)
  have sta_sid: "sta sid = Some na" by (simp add: sta_def)
  have outL: "map_of (outputs na) ''LoopBody'' = Some (OutputInfo_call o2 c)"
    "name (OutputInfo_call o2 c) = ''LoopBody''"
    by (simp_all add: na_def OutputInfo_call_def nm)
  have feedsa: "feeds g sta sid ''LoopBody''"
    using con by (simp add: sta_def)
  from push_output_ports [OF sta_sid outL feedsa, of True]
  obtain stb where pushb: "push_output g ''LoopBody'' True sid sta = (None, stb)"
    and stb_sid: "stb sid = Some na"
    and recb: "received stb (getConnectionsOfOutput g sid ''LoopBody'') (value_p (OutputInfo_call o2 c))"
    by blast
  define n1 where "n1 = na\<lparr>inputs := [(''Start'', p1), (''Control'', reset p2), (''Iterations'', p3)]\<rparr>"
  have notify1: "Loop_notify g sid sta = (None, stb(sid \<mapsto> n1))"
    using more pushb stb_sid
    by (simp add: Loop_notify_def sta_def na_def and_then_def on_node_def reset_input_def n1_def ins)
  have fire1: "fire (Loop_run rt) (Loop_notify g) sid st = (None, stb(sid \<mapsto> n1))"
    using on1 notify1 by (simp add: fire_def and_then_def)
  from fire1 res have e: "e = None" and st': "st' = stb(sid \<mapsto> n1)" by simp_all
  have notself: "\<forall>c\<in>set (getConnectionsOfOutput g sid ''LoopBody''). inputNode c \<noteq> sid"
    using feedsa by (rule feeds_not_self)
  have rec1: "received (stb(sid \<mapsto> n1)) (getConnectionsOfOutput g sid ''LoopBody'') c"
    using recb received_upd [OF notself] by (simp add: OutputInfo_call_def)
  have c1: "counting n1 (k - 1)"
    using inst nf
    by (simp add: counting_def n1_def na_def instance_of_def shape_def ins outs reset_def OutputInfo_call_def)
  have node1: "(stb(sid \<mapsto> n1)) sid = Some n1"
    "map_of (outputs n1) ''Final'' = map_of (outputs n) ''Final''"
    by (simp_all add: n1_def na_def outs)
  have notready: "\<not> ready Loop_check sid (stb(sid \<mapsto> n1))"
    using nf
    by (simp add: ready_def n1_def na_def Loop_check_def control_ready_def isAvailable_def reset_def)
  show ?thesis
    using e node1(1) c1 node1(2) rec1 notready
    by (rule that [unfolded st'])
qed

lemma loop_last:
  assumes cn: "counting n 1"
    and here: "st sid = Some n"
    and ctl: "holds n ''Control'' c"
    and fin: "map_of (outputs n) ''Final'' = Some oF"
    and con: "feeds_unset g st sid ''Final''"
    and res: "fire (Loop_run rt) (Loop_notify g) sid st = (e, st')"
  obtains n' where "e = None"
    "st' sid = Some n'" "fresh n'" "counter n' = 0" "instance_of Loop_class n'"
    "map_of (outputs n') ''Final'' = Some oF"
    "output_value n' ''LoopBody'' = Some c"
    "received st' (getConnectionsOfOutput g sid ''Final'') (value_p oF)"
    "\<forall>m i. m \<noteq> sid \<and> (m, i) \<notin> target ` set (getConnectionsOfOutput g sid ''Final'')
        \<longrightarrow> port st' m i = port st m i"
proof -
  from cn have inst: "instance_of Loop_class n" and nf: "\<not> fresh n" and k: "counter n = 1"
    by (simp_all add: counting_def)
  from inst obtain p1 p2 p3 o1 o2 where
    ins: "inputs n = [(''Start'', p1), (''Control'', p2), (''Iterations'', p3)]"
    and outs: "outputs n = [(''Final'', o1), (''LoopBody'', o2)]"
    and ty: "varType p1 = TObject" "varType p2 = TObject" "varType p3 = TInt"
    and nm: "name p1 = ''Start''" "name p2 = ''Control''" "name p3 = ''Iterations''"
      "name o1 = ''Final''" "name o2 = ''LoopBody''"
    by (rule Loop_ports)
  from fin have oF: "oF = o1" by (simp add: outs)
  from ctl have p2: "valueSet p2" "value_p p2 = c"
    by (simp_all add: holds_def ins)
  define na where "na = n\<lparr>counter := 0, outputs := [(''Final'', o1), (''LoopBody'', OutputInfo_call o2 c)]\<rparr>"
  have run1: "Loop_run rt n = (None, na)"
    using nf k p2 ty
    by (simp add: Loop_run_def emit_def read_attr_def getattr_def call_attr_def ins outs na_def
        InputInfo_call_def)
  define sta where "sta = st(sid \<mapsto> na)"
  have on1: "on_node sid (Loop_run rt) st = (None, sta)"
    using here run1 by (simp add: on_node_def sta_def)
  have sta_sid: "sta sid = Some na" by (simp add: sta_def)
  have outF: "map_of (outputs na) ''Final'' = Some o1" "name o1 = ''Final''"
    by (simp_all add: na_def nm)
  have feedsa: "feeds g sta sid ''Final''" "unset_targets sta (getConnectionsOfOutput g sid ''Final'')"
    using con feeds_unset_upd_self [of g st sid na "''Final''"] by (simp_all add: sta_def feeds_unset_def)
  from push_output_ports [OF sta_sid outF feedsa(1), of False] feedsa(2)
  obtain stb where pushb: "push_output g ''Final'' False sid sta = (None, stb)"
    and stb_sid: "stb sid = Some na"
    and recb: "received stb (getConnectionsOfOutput g sid ''Final'') (value_p o1)"
    and frameb: "\<forall>m i. (m, i) \<notin> target ` set (getConnectionsOfOutput g sid ''Final'') \<longrightarrow> port stb m i = port sta m i"
    by blast
  define n1 where "n1 = na\<lparr>fresh := True, inputs := [(''Start'', reset p1), (''Control'', reset p2), (''Iterations'', p3)]\<rparr>"
  have notify1: "Loop_notify g sid sta = (None, stb(sid \<mapsto> n1))"
    using pushb stb_sid
    by (simp add: Loop_notify_def sta_def na_def and_then_def on_node_def reset_but_Iterations_def
        n1_def ins nm)
  have fire1: "fire (Loop_run rt) (Loop_notify g) sid st = (None, stb(sid \<mapsto> n1))"
    using on1 notify1 by (simp add: fire_def and_then_def)
  from fire1 res have e: "e = None" and st': "st' = stb(sid \<mapsto> n1)" by simp_all
  have notself: "\<forall>c\<in>set (getConnectionsOfOutput g sid ''Final''). inputNode c \<noteq> sid"
    using feedsa(1) by (rule feeds_not_self)
  have rec1: "received (stb(sid \<mapsto> n1)) (getConnectionsOfOutput g sid ''Final'') (value_p oF)"
    using recb received_upd [OF notself] by (simp add: oF)
  have node1: "(stb(sid \<mapsto> n1)) sid = Some n1" "fresh n1" "counter n1 = 0"
    "instance_of Loop_class n1" "map_of (outputs n1) ''Final'' = Some oF"
    "output_value n1 ''LoopBody'' = Some c"
    using inst
    by (simp_all add: n1_def na_def output_value_def OutputInfo_call_def instance_of_def shape_def
        ins outs reset_def oF)
  have frame1: "\<forall>m i. m \<noteq> sid \<and> (m, i) \<notin> target ` set (getConnectionsOfOutput g sid ''Final'')
            \<longrightarrow> port (stb(sid \<mapsto> n1)) m i = port st m i"
    using frameb by (simp add: sta_def port_def)
  show ?thesis
    using e node1 rec1 frame1
    by (rule that [unfolded st'])
qed

text \<open>
  Three iterations, for every graph and every store between the cycles, as in the
  theorem on \<^verbatim>\<open>ForEach\<close>: the connections of \<^verbatim>\<open>LoopBody\<close> deliver the \<^verbatim>\<open>Start\<close>
  object and the first two \<^verbatim>\<open>Control\<close> objects; in the fourth cycle the connections of
  \<^verbatim>\<open>Final\<close> deliver what the output \<^verbatim>\<open>Final\<close> held from the start, and no other input
  is written.
\<close>

lemma loop_three_iterations:
  assumes inst: "instance_of Loop_class n0" and fr: "fresh n0" and here: "st sid = Some n0"
    and start: "read_attr rt n0 ''Start'' = Inr S"
    and its: "read_attr rt n0 ''Iterations'' = Inr (PInt 3)"
    and fin: "map_of (outputs n0) ''Final'' = Some oF"
    and con1: "feeds g st sid ''LoopBody''"
    and cyc1: "fire (Loop_run rt) (Loop_notify g) sid st = (e1, st1)"
    and env1: "sa sid = st1 sid"
    and ref1: "on_node sid (setInput ''Control'' c1 ov1) sa = (q1, sa')"
    and con2: "feeds g sa' sid ''LoopBody''"
    and cyc2: "fire (Loop_run rt) (Loop_notify g) sid sa' = (e2, st2)"
    and env2: "sb sid = st2 sid"
    and ref2: "on_node sid (setInput ''Control'' c2 ov2) sb = (q2, sb')"
    and con3: "feeds g sb' sid ''LoopBody''"
    and cyc3: "fire (Loop_run rt) (Loop_notify g) sid sb' = (e3, st3)"
    and env3: "sc sid = st3 sid"
    and ref3: "on_node sid (setInput ''Control'' c3 ov3) sc = (q3, sc')"
    and con4: "feeds_unset g sc' sid ''Final''"
    and cyc4: "fire (Loop_run rt) (Loop_notify g) sid sc' = (e4, st4)"
  shows "ready Loop_check sid st \<and> e1 = None
     \<and> received st1 (getConnectionsOfOutput g sid ''LoopBody'') S
     \<and> \<not> ready Loop_check sid st1
     \<and> q1 = None \<and> ready Loop_check sid sa' \<and> e2 = None
     \<and> received st2 (getConnectionsOfOutput g sid ''LoopBody'') c1
     \<and> \<not> ready Loop_check sid st2
     \<and> q2 = None \<and> ready Loop_check sid sb' \<and> e3 = None
     \<and> received st3 (getConnectionsOfOutput g sid ''LoopBody'') c2
     \<and> \<not> ready Loop_check sid st3
     \<and> q3 = None \<and> ready Loop_check sid sc' \<and> e4 = None
     \<and> received st4 (getConnectionsOfOutput g sid ''Final'') (value_p oF)
     \<and> (\<forall>m i. m \<noteq> sid \<and> (m, i) \<notin> target ` set (getConnectionsOfOutput g sid ''Final'')
            \<longrightarrow> port st4 m i = port sc' m i)
     \<and> (\<exists>n4. st4 sid = Some n4 \<and> fresh n4 \<and> counter n4 = 0
             \<and> output_value n4 ''LoopBody'' = Some c3
             \<and> map_of (outputs n4) ''Final'' = Some oF)"
proof -
  let ?LB = "getConnectionsOfOutput g sid ''LoopBody''"
  let ?FN = "getConnectionsOfOutput g sid ''Final''"
  have p3: "(0::int) < 3" and p2: "(0::int) < 3 - 1" and p1: "(0::int) < 3 - 1 - 1"
    and m3: "(1::int) < 3" and m2: "(1::int) < 3 - 1"
    by simp_all
  obtain n1 where r0: "ready Loop_check sid st" and x1: "e1 = None"
    and s1: "st1 sid = Some n1" and k1: "counting n1 3"
    and o1: "map_of (outputs n1) ''Final'' = map_of (outputs n0) ''Final''"
    and v1: "received st1 ?LB S" and d1: "\<not> ready Loop_check sid st1"
    by (rule loop_first [OF inst fr here start its p3 con1 cyc1])
  from env1 s1 have sa: "sa sid = Some n1" by simp
  from d1 have da: "\<not> ready Loop_check sid sa"
    unfolding ready_same_node [of sa sid st1, OF env1] .
  obtain n1' where y1: "q1 = None" and ra: "ready Loop_check sid sa'"
    and sa': "sa' sid = Some n1'" and k1': "counting n1' 3" and h1: "holds n1' ''Control'' c1"
    and o1': "map_of (outputs n1') ''Final'' = map_of (outputs n1) ''Final''"
    by (rule loop_refill [OF k1 p3 sa da ref1])
  obtain n2 where x2: "e2 = None"
    and s2: "st2 sid = Some n2" and k2: "counting n2 (3 - 1)"
    and o2: "map_of (outputs n2) ''Final'' = map_of (outputs n1') ''Final''"
    and v2: "received st2 ?LB c1" and d2: "\<not> ready Loop_check sid st2"
    by (rule loop_body [OF k1' m3 sa' h1 con2 cyc2])
  from env2 s2 have sb: "sb sid = Some n2" by simp
  from d2 have db: "\<not> ready Loop_check sid sb"
    unfolding ready_same_node [of sb sid st2, OF env2] .
  obtain n2' where y2: "q2 = None" and rb: "ready Loop_check sid sb'"
    and sb': "sb' sid = Some n2'" and k2': "counting n2' (3 - 1)" and h2: "holds n2' ''Control'' c2"
    and o2': "map_of (outputs n2') ''Final'' = map_of (outputs n2) ''Final''"
    by (rule loop_refill [OF k2 p2 sb db ref2])
  obtain n3 where x3: "e3 = None"
    and s3: "st3 sid = Some n3" and k3: "counting n3 (3 - 1 - 1)"
    and o3: "map_of (outputs n3) ''Final'' = map_of (outputs n2') ''Final''"
    and v3: "received st3 ?LB c2" and d3: "\<not> ready Loop_check sid st3"
    by (rule loop_body [OF k2' m2 sb' h2 con3 cyc3])
  from env3 s3 have sc: "sc sid = Some n3" by simp
  from d3 have dc: "\<not> ready Loop_check sid sc"
    unfolding ready_same_node [of sc sid st3, OF env3] .
  obtain n3' where y3: "q3 = None" and rc: "ready Loop_check sid sc'"
    and sc': "sc' sid = Some n3'" and k3': "counting n3' (3 - 1 - 1)" and h3: "holds n3' ''Control'' c3"
    and o3': "map_of (outputs n3') ''Final'' = map_of (outputs n3) ''Final''"
    by (rule loop_refill [OF k3 p1 sc dc ref3])
  from k3' have one: "counting n3' 1" by simp
  have fin': "map_of (outputs n3') ''Final'' = Some oF"
    using fin o1 o1' o2 o2' o3 o3' by simp
  obtain n4 where x4: "e4 = None" and n4: "st4 sid = Some n4" "fresh n4" "counter n4 = 0"
    and "instance_of Loop_class n4"
    and n4': "map_of (outputs n4) ''Final'' = Some oF" "output_value n4 ''LoopBody'' = Some c3"
    and v4: "received st4 ?FN (value_p oF)"
    and fr4: "\<forall>m i. m \<noteq> sid \<and> (m, i) \<notin> target ` set ?FN \<longrightarrow> port st4 m i = port sc' m i"
    by (rule loop_last [OF one sc' h3 fin' con4 cyc4])
  from n4 n4' have e4: "\<exists>n4. st4 sid = Some n4 \<and> fresh n4 \<and> counter n4 = 0
             \<and> output_value n4 ''LoopBody'' = Some c3
             \<and> map_of (outputs n4) ''Final'' = Some oF"
    by (intro exI [of _ n4] conjI)
  show ?thesis
    using r0 x1 v1 d1 y1 ra x2 v2 d2 y2 rb x3 v3 d3 y3 rc x4 v4 fr4 e4
    by (intro conjI)
qed

text \<open>
  Claim C1 does not hold of node.py.  In the example graph, a \<^verbatim>\<open>Loop\<close> node with
  \<^verbatim>\<open>Iterations\<close> 3 sends its \<^verbatim>\<open>Start\<close> object and then the first two objects written
  to \<^verbatim>\<open>Control\<close> along the connection of \<^verbatim>\<open>LoopBody\<close>, as the claim says, and is ready
  only after each write.  In the fourth cycle the input after \<^verbatim>\<open>Final\<close> receives
  \<^verbatim>\<open>None\<close>, the value of an output that was never written, and not the third
  \<^verbatim>\<open>Control\<close> object; that object is left in the output \<^verbatim>\<open>LoopBody\<close>, and the input
  after \<^verbatim>\<open>LoopBody\<close> is not written.  The node is fresh again afterwards, with
  counter 0.
\<close>

theorem loop_final_is_never_written:
  "ready Loop_check 0 loop_store
   \<and> fst loop_cycle1 = None
   \<and> received (snd loop_cycle1) [wire ''LoopBody'' 1] (PObj 7)
   \<and> \<not> ready Loop_check 0 (snd loop_cycle1)
   \<and> fst loop_cycle2 = None
   \<and> received (snd loop_cycle2) [wire ''LoopBody'' 1] (PObj 11)
   \<and> fst loop_cycle3 = None
   \<and> received (snd loop_cycle3) [wire ''LoopBody'' 1] (PObj 12)
   \<and> ready Loop_check 0 (snd (refill (PObj 13) (consumed (snd loop_cycle3))))
   \<and> fst loop_cycle4 = None
   \<and> received (snd loop_cycle4) [wire ''Final'' 3] PNone
   \<and> \<not> received (snd loop_cycle4) [wire ''Final'' 3] (PObj 13)
   \<and> port (snd loop_cycle4) 1 ''Object'' = port sinks 1 ''Object''
   \<and> map_option (\<lambda>n. output_value n ''Final'') (snd loop_cycle4 0) = Some None
   \<and> map_option (\<lambda>n. output_value n ''LoopBody'') (snd loop_cycle4 0) = Some (Some (PObj 13))
   \<and> map_option fresh (snd loop_cycle4 0) = Some True
   \<and> map_option counter (snd loop_cycle4 0) = Some 0"
proof -
  let ?r1 = "refill (PObj 11) (consumed (snd loop_cycle1))"
  let ?r2 = "refill (PObj 12) (consumed (snd loop_cycle2))"
  let ?r3 = "refill (PObj 13) (consumed (snd loop_cycle3))"
  let ?oF = "(port_of_decl (addOutput ''Final'' TObject None None None None))\<lparr>owner := Some 0\<rparr>"
  have inst: "instance_of Loop_class loop_node" and fr: "fresh loop_node"
    and here: "loop_store 0 = Some loop_node"
    by (simp_all add: ex_defs instance_of_def shape_def class_defs init_defs setInput_def
        InputInfo_set_def)
  have start: "read_attr rt0 loop_node ''Start'' = Inr (PObj 7)"
    and its: "read_attr rt0 loop_node ''Iterations'' = Inr (PInt 3)"
    and fin: "map_of (outputs loop_node) ''Final'' = Some ?oF"
    by (simp_all add: ex_defs class_defs init_defs setInput_def InputInfo_set_def read_attr_def
        getattr_def InputInfo_call_def)
  have oF: "value_p ?oF = PNone" "\<not> valueSet ?oF"
    by (simp_all add: class_defs)
  have con1: "feeds ex_graph loop_store 0 ''LoopBody''"
    using sinks_ready by (simp add: loop_store_def)
  have con2: "feeds ex_graph (snd ?r1) 0 ''LoopBody''"
    and con3: "feeds ex_graph (snd ?r2) 0 ''LoopBody''"
    and con4: "feeds_unset ex_graph (snd ?r3) 0 ''Final''"
    using feeds_consumed by (simp_all add: refill_def)
  have c1: "fire (Loop_run rt0) (Loop_notify ex_graph) 0 loop_store
              = (fst loop_cycle1, snd loop_cycle1)"
    by (simp add: loop_cycle1_def loop_fire_def)
  have e1: "consumed (snd loop_cycle1) 0 = snd loop_cycle1 0"
    and e2: "consumed (snd loop_cycle2) 0 = snd loop_cycle2 0"
    and e3: "consumed (snd loop_cycle3) 0 = snd loop_cycle3 0"
    by (simp_all add: consumed_def)
  have r1: "on_node 0 (setInput ''Control'' (PObj 11) True) (consumed (snd loop_cycle1))
              = (fst ?r1, snd ?r1)"
    and r2: "on_node 0 (setInput ''Control'' (PObj 12) True) (consumed (snd loop_cycle2))
              = (fst ?r2, snd ?r2)"
    and r3: "on_node 0 (setInput ''Control'' (PObj 13) True) (consumed (snd loop_cycle3))
              = (fst ?r3, snd ?r3)"
    by (simp_all add: refill_def)
  have c2: "fire (Loop_run rt0) (Loop_notify ex_graph) 0 (snd ?r1)
              = (fst loop_cycle2, snd loop_cycle2)"
    and c3: "fire (Loop_run rt0) (Loop_notify ex_graph) 0 (snd ?r2)
              = (fst loop_cycle3, snd loop_cycle3)"
    and c4: "fire (Loop_run rt0) (Loop_notify ex_graph) 0 (snd ?r3)
              = (fst loop_cycle4, snd loop_cycle4)"
    by (simp_all add: loop_cycle2_def loop_cycle3_def loop_cycle4_def loop_fire_def)
  have g: "getConnectionsOfOutput ex_graph 0 ''LoopBody'' = [wire ''LoopBody'' 1]"
    "getConnectionsOfOutput ex_graph 0 ''Final'' = [wire ''Final'' 3]"
    by (simp_all add: ex_graph_def)
  have same: "port (snd ?r3) 1 ''Object'' = port sinks 1 ''Object''"
    by (simp add: refill_def on_node_def port_def consumed_def split: option.splits prod.splits)
  note main = loop_three_iterations
         [OF inst fr here start its fin con1 c1 e1 r1 con2 c2 e2 r2 con3 c3 e3 r3 con4 c4]
  have frame: "port (snd loop_cycle4) 1 ''Object'' = port (snd ?r3) 1 ''Object''"
    using main by (simp add: g target_def wire_def)
  have none: "received (snd loop_cycle4) [wire ''Final'' 3] PNone"
    using main by (simp add: g oF)
  then have not13: "\<not> received (snd loop_cycle4) [wire ''Final'' 3] (PObj 13)"
    by (auto simp add: received_def split: option.splits)
  show ?thesis
    using main frame same none not13 oF
    by (auto simp add: g output_value_def)
qed

end
